theory Spec2Isabelle
  imports Main
begin

section \<open>Tokens\<close>

text \<open>
  The enumeration \<open>TokenTypes\<close> lives in \<open>quark.core.token_\<close>. The members listed here
  are the ones that \<open>ast.py\<close> and \<open>scanner.py\<close> refer to by name; \<open>OTHER\<close> stands for
  every further member (keywords, brackets, ...), told apart by its name.
\<close>

datatype TokenTypes =
    INTEGER | REAL | COMPLEX | STRING | BOOLEAN | ID | SKIP | PERIOD
  | PLUS | MINUS | STAR | SLASH | DOUBLE_SLASH | DOUBLE_STAR | PERCENT | SLASH_PERCENT
  | GREATER | LESS | GREATER_EQUAL | LESS_EQUAL | DOUBLE_EQUAL | EXCLAMATION_EQUAL
  | AND | OR | XOR | NOT | HEAD | TAIL | NIL
  | OTHER string

text \<open>\<open>Token(type, raw, pos)\<close>, with \<open>pos = (column, line)\<close>.\<close>

datatype Token = Token (tok_type: TokenTypes) (tok_raw: string) (tok_pos: "nat \<times> nat")

section \<open>AST nodes\<close>

text \<open>
  One constructor per expression class of \<open>ast.py\<close>. An \<open>IdList\<close> is the list of its
  identifiers and the \<open>ExpressionList\<close> held by a \<open>LetExpression\<close> is the list of its
  expressions. The body of a \<open>LetExpression\<close> and the alternative of a
  \<open>ConditionalExpression\<close> may be \<open>None\<close>. \<open>InternalName\<close> carries the identifier that the
  class counter gave to the \<open>_InternalName\<close> object when it was built.
\<close>

datatype expr =
    LetExpression "string list" "expr list" "expr option"
  | LambdaExpression string expr
  | ConditionalExpression expr expr "expr option"
  | ApplicationExpression expr expr
  | BinaryExpression expr Token expr
  | UnaryExpression Token expr
  | ListExpression "expr list"
  | InternalName string
  | AtomExpression string TokenTypes
  | ExpressionList "expr list"

datatype statement =
    ImportStatement "string list" "string list option"
  | ExportStatement "string list" "string list option"
  | AssignmentStatement "string list" "expr list"
  | ExpressionStatement expr

text \<open>
  The exceptions. A \<open>QuarkScannerError\<close> carries one of the two messages of the
  scanner: the leading zeros, or the invalid character with the character it cites
  (\<open>None\<close> at the end of the source).
\<close>

datatype scanner_message = LeadingZeros | InvalidCharacter "char option"

datatype error =
    NotImplementedError
  | AttributeError
  | KeyError
  | TypeError
  | ValueError
  | IndexError
  | QuarkScannerError scanner_message

section \<open>Scope queries\<close>

text \<open>
  A query raises \<open>AttributeError\<close> when it reaches a \<open>LetExpression\<close> whose body is
  \<open>None\<close>; otherwise it returns a set of names. \<open>a | b\<close>, \<open>a - b\<close> and \<open>a & b\<close> evaluate
  \<open>a\<close> first.
\<close>

definition set_union :: "error + string set \<Rightarrow> error + string set \<Rightarrow> error + string set" where
  "set_union a b =
     (case a of Inl e \<Rightarrow> Inl e
      | Inr x \<Rightarrow> (case b of Inl e \<Rightarrow> Inl e | Inr y \<Rightarrow> Inr (x \<union> y)))"

definition set_minus :: "error + string set \<Rightarrow> string set \<Rightarrow> error + string set" where
  "set_minus a y = (case a of Inl e \<Rightarrow> Inl e | Inr x \<Rightarrow> Inr (x - y))"

definition set_inter :: "error + string set \<Rightarrow> string set \<Rightarrow> error + string set" where
  "set_inter a y = (case a of Inl e \<Rightarrow> Inl e | Inr x \<Rightarrow> Inr (x \<inter> y))"

text \<open>
  Python's \<open>set(s)\<close> for a string \<open>s\<close>: the set of its characters, each a string of
  length one.
\<close>

definition set_of_str :: "string \<Rightarrow> string set" where
  "set_of_str s = (\<lambda>c. [c]) ` set s"

text \<open>
  The truth value of \<open>self.alternative\<close>: \<open>None\<close> is false, and so is an empty
  \<open>ExpressionList\<close>, the only expression class that is a \<open>list\<close>.
\<close>

fun truthy :: "expr option \<Rightarrow> bool" where
  "truthy None = False"
| "truthy (Some (ExpressionList [])) = False"
| "truthy (Some e) = True"

fun variables :: "expr \<Rightarrow> error + string set"
  and variables_list :: "expr list \<Rightarrow> error + string set" where
  "variables (LetExpression ids inits None) =
     (case variables_list inits of Inl e \<Rightarrow> Inl e | Inr x \<Rightarrow> Inl AttributeError)"
| "variables (LetExpression ids inits (Some body)) =
     set_union (variables_list inits) (variables body)"
| "variables (LambdaExpression ident body) = variables body"
| "variables (ConditionalExpression c t alt) =
     (case alt of
        Some a \<Rightarrow>
          if truthy alt then set_union (set_union (variables c) (variables t)) (variables a)
          else set_union (variables c) (variables t)
      | None \<Rightarrow> set_union (variables c) (variables t))"
| "variables (ApplicationExpression f a) = set_union (variables f) (variables a)"
| "variables (BinaryExpression l opr r) = set_union (variables l) (variables r)"
| "variables (UnaryExpression opr e) = variables e"
| "variables (ListExpression items) = variables_list items"
| "variables (InternalName ident) = Inr {ident}"
| "variables (AtomExpression raw ty) = Inr (if ty = ID then {raw} else {})"
| "variables (ExpressionList es) = variables_list es"
| "variables_list [] = Inr {}"
| "variables_list (e # es) =
     (case variables e of Inl err \<Rightarrow> Inl err | Inr x \<Rightarrow> set_union (Inr x) (variables_list es))"

fun free_variables :: "expr \<Rightarrow> error + string set"
  and free_variables_list :: "expr list \<Rightarrow> error + string set" where
  "free_variables (LetExpression ids inits None) = Inl AttributeError"
| "free_variables (LetExpression ids inits (Some body)) =
     set_union (set_minus (free_variables body) (set ids)) (free_variables_list inits)"
| "free_variables (LambdaExpression ident body) =
     set_minus (free_variables body) (set_of_str ident)"
| "free_variables (ConditionalExpression c t alt) =
     (case alt of
        Some a \<Rightarrow>
          if truthy alt
          then set_union (set_union (free_variables c) (free_variables t)) (free_variables a)
          else set_union (free_variables c) (free_variables t)
      | None \<Rightarrow> set_union (free_variables c) (free_variables t))"
| "free_variables (ApplicationExpression f a) = set_union (free_variables f) (free_variables a)"
| "free_variables (BinaryExpression l opr r) = set_union (free_variables l) (free_variables r)"
| "free_variables (UnaryExpression opr e) = free_variables e"
| "free_variables (ListExpression items) = free_variables_list items"
| "free_variables (InternalName ident) = Inr {ident}"
| "free_variables (AtomExpression raw ty) = Inr (if ty = ID then {raw} else {})"
| "free_variables (ExpressionList es) = free_variables_list es"
| "free_variables_list [] = Inr {}"
| "free_variables_list (e # es) =
     (case free_variables e of Inl err \<Rightarrow> Inl err
      | Inr x \<Rightarrow> set_union (Inr x) (free_variables_list es))"

fun bound_variables :: "expr \<Rightarrow> error + string set"
  and bound_variables_list :: "expr list \<Rightarrow> error + string set" where
  "bound_variables (LetExpression ids inits None) = Inl AttributeError"
| "bound_variables (LetExpression ids inits (Some body)) =
     set_union (set_inter (variables body) (set ids)) (bound_variables_list inits)"
| "bound_variables (LambdaExpression ident body) =
     (case bound_variables body of Inl e \<Rightarrow> Inl e | Inr x \<Rightarrow> Inr (set_of_str ident \<inter> x))"
| "bound_variables (ConditionalExpression c t alt) =
     (case alt of
        Some a \<Rightarrow>
          if truthy alt
          then set_union (set_union (bound_variables c) (bound_variables t)) (bound_variables a)
          else set_union (bound_variables c) (bound_variables t)
      | None \<Rightarrow> set_union (bound_variables c) (bound_variables t))"
| "bound_variables (ApplicationExpression f a) =
     set_union (bound_variables f) (bound_variables a)"
| "bound_variables (BinaryExpression l opr r) =
     set_union (bound_variables l) (bound_variables r)"
| "bound_variables (UnaryExpression opr e) = bound_variables e"
| "bound_variables (ListExpression items) = bound_variables_list items"
| "bound_variables (InternalName ident) = Inr {}"
| "bound_variables (AtomExpression raw ty) = Inr {}"
| "bound_variables (ExpressionList es) = bound_variables_list es"
| "bound_variables_list [] = Inr {}"
| "bound_variables_list (e # es) =
     (case bound_variables e of Inl err \<Rightarrow> Inl err
      | Inr x \<Rightarrow> set_union (Inr x) (bound_variables_list es))"

section \<open>Values and results\<close>

text \<open>
  The tag of an \<open>ExecutionResult\<close>: the marker objects \<open>LiteralType\<close> and \<open>NoneType\<close>, or
  one of the classes of \<open>ast.py\<close>.
\<close>

datatype result_type =
    LiteralType | NoneType
  | Class_Expression
  | Class_LetExpression | Class_LambdaExpression | Class_ConditionalExpression
  | Class_ApplicationExpression | Class_BinaryExpression | Class_UnaryExpression
  | Class_AtomExpression

definition expression_types :: "result_type set" where
  "expression_types =
     {Class_LetExpression, Class_LambdaExpression, Class_ConditionalExpression,
      Class_ApplicationExpression, Class_BinaryExpression, Class_UnaryExpression,
      Class_AtomExpression}"

definition is_expression_type :: "result_type \<Rightarrow> bool" where
  "is_expression_type t = (t \<in> expression_types)"

text \<open>
  What the \<open>val\<close> field of an \<open>ExecutionResult\<close> can hold: an object of the runtime
  classes, \<open>None\<close>, a Python \<open>bool\<close>, or an AST node.

  Modelled from the spec: the runtime classes (\<open>quark.core.runtime.*\<close>) are not among the
  sources. An \<open>IntegerObject\<close> is built from the raw text of a literal and stands for that
  integer; the other literal objects keep the raw text they were built from, and a
  \<open>BooleanObject\<close> the truth value it was built from.
\<close>

datatype pyval =
    IntegerObject int
  | RealObject string
  | ComplexObject string
  | StringObject string
  | BooleanObject bool
  | PyNone
  | PyBool bool
  | Node expr

type_synonym ExecutionResult = "result_type \<times> pyval"

definition is_digit :: "char \<Rightarrow> bool" where
  "is_digit c = (48 \<le> (of_char c :: nat) \<and> (of_char c :: nat) \<le> 57)"

text \<open>
  Modelled from the spec: \<open>IntegerObject(raw)\<close> reads the raw text of an integer literal,
  a non-empty run of decimal digits, in base ten; any other text is a \<open>ValueError\<close>.
\<close>

definition int_of_raw :: "string \<Rightarrow> int option" where
  "int_of_raw raw =
     (if raw \<noteq> [] \<and> list_all is_digit raw
      then Some (foldl (\<lambda>a c. 10 * a + (int (of_char c) - 48)) 0 raw)
      else None)"

text \<open>
  The operators that the lambdas of \<open>_token_binary_operation_mapping\<close> apply to two
  values: \<open>x + y\<close>, \<open>x - y\<close>, \<open>x * y\<close>, \<open>x / y\<close>, \<open>x // y\<close>, \<open>x ** y\<close>, \<open>x % y\<close>,
  \<open>x > y\<close>, \<open>x < y\<close>, \<open>x >= y\<close>, \<open>x <= y\<close>, \<open>x == y\<close>, \<open>x != y\<close>,
  \<open>BooleanObject(x) and BooleanObject(y)\<close>, \<open>BooleanObject(x) or BooleanObject(y)\<close> and
  \<open>BooleanObject(x) ^ BooleanObject(y)\<close>.
\<close>

datatype py_operator =
    Add | Sub | Mult | Div | FloorDiv | Pow | Mod
  | Gt | Lt | GtE | LtE | Eq | NotEq
  | BoolAnd | BoolOr | BitXor

text \<open>
  What the runtime classes decide is a parameter of the evaluator: the outcome of each
  operator on two values, and whether \<open>val == BooleanObject(True)\<close> holds in the test of
  a conditional.
\<close>

record runtime =
  binary_operator :: "py_operator \<Rightarrow> pyval \<Rightarrow> pyval \<Rightarrow> error + pyval"
  equals_true :: "pyval \<Rightarrow> error + bool"

text \<open>
  \<open>_token_unary_operation_mapping\<close>. \<open>UnaryExpression.execute\<close> applies the selected
  lambda to the \<open>ExecutionResult\<close> of the operand, a named tuple of two fields: \<open>-x\<close> is
  a \<open>TypeError\<close> on a tuple, the attributes \<open>head\<close>, \<open>tail\<close> and \<open>is_nil\<close> do not exist
  on it, and \<open>not x\<close> is \<open>False\<close> since a tuple of two fields is true.
\<close>

definition token_unary_operation_mapping ::
  "TokenTypes \<Rightarrow> (ExecutionResult \<Rightarrow> error + pyval) option" where
  "token_unary_operation_mapping t =
     (if t = MINUS then Some (\<lambda>x. Inl TypeError)
      else if t = HEAD then Some (\<lambda>x. Inl AttributeError)
      else if t = TAIL then Some (\<lambda>x. Inl AttributeError)
      else if t = NIL then Some (\<lambda>x. Inl AttributeError)
      else if t = NOT then Some (\<lambda>x. Inr (PyBool False))
      else None)"

text \<open>\<open>_token_binary_operation_mapping\<close>; the entry of \<open>SLASH_PERCENT\<close> returns \<open>None\<close>.\<close>

definition token_binary_operation_mapping ::
  "runtime \<Rightarrow> TokenTypes \<Rightarrow> (pyval \<Rightarrow> pyval \<Rightarrow> error + pyval) option" where
  "token_binary_operation_mapping rt t =
     (if t = PLUS then Some (binary_operator rt Add)
      else if t = MINUS then Some (binary_operator rt Sub)
      else if t = STAR then Some (binary_operator rt Mult)
      else if t = SLASH then Some (binary_operator rt Div)
      else if t = DOUBLE_SLASH then Some (binary_operator rt FloorDiv)
      else if t = DOUBLE_STAR then Some (binary_operator rt Pow)
      else if t = PERCENT then Some (binary_operator rt Mod)
      else if t = SLASH_PERCENT then Some (\<lambda>x y. Inr PyNone)
      else if t = GREATER then Some (binary_operator rt Gt)
      else if t = LESS then Some (binary_operator rt Lt)
      else if t = GREATER_EQUAL then Some (binary_operator rt GtE)
      else if t = LESS_EQUAL then Some (binary_operator rt LtE)
      else if t = DOUBLE_EQUAL then Some (binary_operator rt Eq)
      else if t = EXCLAMATION_EQUAL then Some (binary_operator rt NotEq)
      else if t = AND then Some (binary_operator rt BoolAnd)
      else if t = OR then Some (binary_operator rt BoolOr)
      else if t = XOR then Some (binary_operator rt BitXor)
      else None)"

section \<open>The evaluator\<close>

type_synonym closure = "string \<rightharpoonup> expr"

text \<open>
  The binding rule that \<open>AssignmentStatement\<close>, \<open>LetExpression\<close> and \<open>LambdaExpression\<close>
  each write out: \<open>name in closure.keys() and name in expr.free_variables\<close> selects the
  wrapped self-reference. The second test runs only when the first holds, and it raises
  when the query does, before the closure is written.
\<close>

definition bind_name :: "string \<Rightarrow> expr \<Rightarrow> closure \<Rightarrow> error + closure" where
  "bind_name name e closure =
     (case closure name of
        None \<Rightarrow> Inr (closure(name \<mapsto> e))
      | Some previous \<Rightarrow>
          (case free_variables e of
             Inl err \<Rightarrow> Inl err
           | Inr fv \<Rightarrow>
               if name \<in> fv
               then Inr (closure(name \<mapsto>
                      ApplicationExpression (LambdaExpression name e) previous))
               else Inr (closure(name \<mapsto> e))))"

text \<open>
  The loop \<open>for name, expr in zip(...)\<close> over the binding rule: the closure as the loop
  leaves it, with the exception that stopped it, if any.
\<close>

fun bind_all :: "(string \<times> expr) list \<Rightarrow> closure \<Rightarrow> error option \<times> closure" where
  "bind_all [] closure = (None, closure)"
| "bind_all ((name, e) # rest) closure =
     (case bind_name name e closure of
        Inl err \<Rightarrow> (Some err, closure)
      | Inr closure' \<Rightarrow> bind_all rest closure')"

text \<open>
  \<open>execute\<close> returns the \<open>ExecutionResult\<close> or the exception raised, together with the
  caller's closure and the caller's callstack as the call leaves them (both are mutable
  objects that the callee shares with its caller). The callstack is a list whose last
  element is the top; \<open>None\<close> and the empty list are both false in \<open>if callstack\<close>, and
  the model writes \<open>[]\<close> for both. The first argument bounds the depth of the recursion:
  \<open>None\<close> is the call that does not come back within that depth.
\<close>

type_synonym outcome = "(error + ExecutionResult) \<times> closure \<times> expr list"

definition application_result :: "expr \<Rightarrow> error + ExecutionResult \<Rightarrow> error + ExecutionResult" where
  "application_result self res =
     (case res of
        Inl err \<Rightarrow> Inl err
      | Inr result \<Rightarrow>
          if is_expression_type (fst result)
          then Inr (Class_ApplicationExpression, Node self)
          else Inr result)"

definition let_result :: "expr \<Rightarrow> error + ExecutionResult \<Rightarrow> error + ExecutionResult" where
  "let_result self res =
     (case res of
        Inl err \<Rightarrow> Inl err
      | Inr result \<Rightarrow>
          if fst result = LiteralType then Inr result
          else Inr (Class_LetExpression, Node self))"

fun execute :: "nat \<Rightarrow> runtime \<Rightarrow> expr \<Rightarrow> closure \<Rightarrow> expr list \<Rightarrow> outcome option" where
  "execute 0 rt e closure callstack = None"
| "execute (Suc n) rt (LetExpression ids inits body) closure callstack =
     (case bind_all (zip ids inits) closure of
        (Some err, closure') \<Rightarrow> Some (Inl err, closure', callstack)
      | (None, closure') \<Rightarrow>
          (case body of
             None \<Rightarrow> Some (Inl AttributeError, closure', callstack)
           | Some b \<Rightarrow>
               (case execute n rt b closure callstack of
                  None \<Rightarrow> None
                | Some (res, closure_copy, callstack') \<Rightarrow>
                    Some (let_result (LetExpression ids inits body) res, closure', callstack'))))"
| "execute (Suc n) rt (LambdaExpression name body) closure callstack =
     (if callstack \<noteq> [] then
        (case bind_name name (last callstack) closure of
           Inl err \<Rightarrow> Some (Inl err, closure, callstack)
         | Inr closure' \<Rightarrow> execute n rt body closure' (butlast callstack))
      else execute n rt body closure callstack)"
| "execute (Suc n) rt (ConditionalExpression c t alt) closure callstack =
     (case execute n rt c closure [] of
        None \<Rightarrow> None
      | Some (res, closure1, s1) \<Rightarrow>
          (case res of
             Inl err \<Rightarrow> Some (Inl err, closure1, callstack)
           | Inr condition_result \<Rightarrow>
               if fst condition_result = LiteralType then
                 (case equals_true rt (snd condition_result) of
                    Inl err \<Rightarrow> Some (Inl err, closure1, callstack)
                  | Inr True \<Rightarrow>
                      (case execute n rt t closure1 [] of
                         None \<Rightarrow> None
                       | Some (res2, closure2, s2) \<Rightarrow> Some (res2, closure2, callstack))
                  | Inr False \<Rightarrow>
                      (case alt of
                         None \<Rightarrow> Some (Inl AttributeError, closure1, callstack)
                       | Some a \<Rightarrow>
                           (case execute n rt a closure1 [] of
                              None \<Rightarrow> None
                            | Some (res2, closure2, s2) \<Rightarrow> Some (res2, closure2, callstack))))
               else Some (Inr (Class_ConditionalExpression,
                            Node (ConditionalExpression c t alt)), closure1, callstack)))"
| "execute (Suc n) rt (ApplicationExpression f a) closure callstack =
     (if callstack \<noteq> [] then
        (case execute n rt f closure (callstack @ [a]) of
           None \<Rightarrow> None
         | Some (res, closure_copy, callstack') \<Rightarrow>
             Some (application_result (ApplicationExpression f a) res, closure, callstack'))
      else
        (case execute n rt f closure [a] of
           None \<Rightarrow> None
         | Some (res, closure_copy, s) \<Rightarrow>
             Some (application_result (ApplicationExpression f a) res, closure, callstack)))"
| "execute (Suc n) rt (BinaryExpression l opr r) closure callstack =
     (case free_variables (BinaryExpression l opr r) of
        Inl err \<Rightarrow> Some (Inl err, closure, callstack)
      | Inr fv \<Rightarrow>
          if fv \<subseteq> dom closure then
            (case execute n rt l closure [] of
               None \<Rightarrow> None
             | Some (res1, closure1, s1) \<Rightarrow>
                 (case res1 of
                    Inl err \<Rightarrow> Some (Inl err, closure1, callstack)
                  | Inr left_result \<Rightarrow>
                      (case execute n rt r closure1 [] of
                         None \<Rightarrow> None
                       | Some (res2, closure2, s2) \<Rightarrow>
                           (case res2 of
                              Inl err \<Rightarrow> Some (Inl err, closure2, callstack)
                            | Inr right_result \<Rightarrow>
                                (case token_binary_operation_mapping rt (tok_type opr) of
                                   None \<Rightarrow> Some (Inl KeyError, closure2, callstack)
                                 | Some f \<Rightarrow>
                                     (case f (snd left_result) (snd right_result) of
                                        Inl err \<Rightarrow> Some (Inl err, closure2, callstack)
                                      | Inr v \<Rightarrow>
                                          Some (Inr (LiteralType, v), closure2, callstack)))))))
          else Some (Inr (Class_BinaryExpression, Node (BinaryExpression l opr r)),
                 closure, callstack))"
| "execute (Suc n) rt (UnaryExpression opr e) closure callstack =
     (case free_variables (UnaryExpression opr e) of
        Inl err \<Rightarrow> Some (Inl err, closure, callstack)
      | Inr fv \<Rightarrow>
          if fv \<subseteq> dom closure then
            (case execute n rt e closure [] of
               None \<Rightarrow> None
             | Some (res, closure1, s1) \<Rightarrow>
                 (case res of
                    Inl err \<Rightarrow> Some (Inl err, closure1, callstack)
                  | Inr result \<Rightarrow>
                      (case token_unary_operation_mapping (tok_type opr) of
                         None \<Rightarrow> Some (Inl KeyError, closure1, callstack)
                       | Some f \<Rightarrow>
                           (case f result of
                              Inl err \<Rightarrow> Some (Inl err, closure1, callstack)
                            | Inr v \<Rightarrow> Some (Inr (LiteralType, v), closure1, callstack)))))
          else Some (Inr (Class_Expression, Node (UnaryExpression opr e)), closure, callstack))"
| "execute (Suc n) rt (ListExpression items) closure callstack =
     Some (Inl NotImplementedError, closure, callstack)"
| "execute (Suc n) rt (InternalName ident) closure callstack =
     Some (Inl NotImplementedError, closure, callstack)"
| "execute (Suc n) rt (AtomExpression raw ty) closure callstack =
     (if ty = INTEGER then
        (case int_of_raw raw of
           None \<Rightarrow> Some (Inl ValueError, closure, callstack)
         | Some i \<Rightarrow> Some (Inr (LiteralType, IntegerObject i), closure, callstack))
      else if ty = REAL then Some (Inr (LiteralType, RealObject raw), closure, callstack)
      else if ty = COMPLEX then Some (Inr (LiteralType, ComplexObject raw), closure, callstack)
      else if ty = STRING then Some (Inr (LiteralType, StringObject raw), closure, callstack)
      else if ty = BOOLEAN then
        Some (Inr (LiteralType, BooleanObject (raw = ''true'')), closure, callstack)
      else
        (case closure raw of
           Some e \<Rightarrow> execute n rt e closure callstack
         | None \<Rightarrow>
             Some (Inr (Class_AtomExpression, Node (AtomExpression raw ty)), closure, callstack)))"
| "execute (Suc n) rt (ExpressionList es) closure callstack =
     Some (Inl NotImplementedError, closure, callstack)"

text \<open>
  Statements. \<open>ImportStatement\<close> and \<open>ExportStatement\<close> raise; \<open>AssignmentStatement\<close>
  runs the binding loop on the closure it was given and returns
  \<open>ExecutionResult(NoneType, None)\<close>; an expression is a statement as well.
\<close>

fun execute_statement ::
  "nat \<Rightarrow> runtime \<Rightarrow> statement \<Rightarrow> closure \<Rightarrow> expr list \<Rightarrow> outcome option" where
  "execute_statement n rt (ImportStatement package_names alias_names) closure callstack =
     Some (Inl NotImplementedError, closure, callstack)"
| "execute_statement n rt (ExportStatement package_names alias_names) closure callstack =
     Some (Inl NotImplementedError, closure, callstack)"
| "execute_statement n rt (AssignmentStatement identifiers expr_values) closure callstack =
     (case bind_all (zip identifiers expr_values) closure of
        (Some err, closure') \<Rightarrow> Some (Inl err, closure', callstack)
      | (None, closure') \<Rightarrow> Some (Inr (NoneType, PyNone), closure', callstack))"
| "execute_statement n rt (ExpressionStatement e) closure callstack =
     execute n rt e closure callstack"


text \<open>
  A runtime for closed evaluations.

  Modelled from the spec: the runtime classes are not among the sources; of their
  "standard value semantics" this runtime has the arithmetic of integers and the
  comparison with the true boolean, and it raises \<open>TypeError\<close> elsewhere.
\<close>

definition integer_operator :: "py_operator \<Rightarrow> pyval \<Rightarrow> pyval \<Rightarrow> error + pyval" where
  "integer_operator opr x y =
     (case x of
        IntegerObject a \<Rightarrow>
          (case y of
             IntegerObject b \<Rightarrow>
               (case opr of
                  Add \<Rightarrow> Inr (IntegerObject (a + b))
                | Sub \<Rightarrow> Inr (IntegerObject (a - b))
                | Mult \<Rightarrow> Inr (IntegerObject (a * b))
                | _ \<Rightarrow> Inl TypeError)
           | _ \<Rightarrow> Inl TypeError)
      | _ \<Rightarrow> Inl TypeError)"

definition integer_runtime :: runtime where
  "integer_runtime =
     \<lparr>binary_operator = integer_operator,
      equals_true = (\<lambda>v. Inr (v = BooleanObject True))\<rparr>"

text \<open>
  \<open>may_bind closure e pending\<close>: following the calls of \<open>execute\<close> that work on the
  closure object of the caller, starting at \<open>e\<close> with a callstack that is non-empty
  exactly when \<open>pending\<close> holds, there is a node that writes to that closure: a
  \<open>LetExpression\<close> with at least one binding, or a \<open>LambdaExpression\<close> reached while an
  argument is pending. The calls that share the closure are: the body of a lambda (with
  the callstack that the lambda leaves), the expression bound to an identifier (with the
  same callstack), the operands of a conditional expression and the operands of a binary
  or unary expression whose free variables are all bound (with no callstack). An \<open>ApplicationExpression\<close> hands a copy down, so nothing below it
  counts.
\<close>

inductive may_bind :: "closure \<Rightarrow> expr \<Rightarrow> bool \<Rightarrow> bool" for closure :: closure where
  Let: "zip ids inits \<noteq> [] \<Longrightarrow> may_bind closure (LetExpression ids inits body) pending"
| Lambda_pending: "may_bind closure (LambdaExpression name body) True"
| Lambda_body:
    "may_bind closure body False \<Longrightarrow> may_bind closure (LambdaExpression name body) False"
| Conditional_condition:
    "may_bind closure c False \<Longrightarrow> may_bind closure (ConditionalExpression c t alt) pending"
| Conditional_consequent:
    "may_bind closure t False \<Longrightarrow> may_bind closure (ConditionalExpression c t alt) pending"
| Conditional_alternative:
    "may_bind closure a False \<Longrightarrow> may_bind closure (ConditionalExpression c t (Some a)) pending"
| Binary_lhs:
    "free_variables (BinaryExpression l opr r) = Inr fv \<Longrightarrow> fv \<subseteq> dom closure \<Longrightarrow>
     may_bind closure l False \<Longrightarrow> may_bind closure (BinaryExpression l opr r) pending"
| Binary_rhs:
    "free_variables (BinaryExpression l opr r) = Inr fv \<Longrightarrow> fv \<subseteq> dom closure \<Longrightarrow>
     may_bind closure r False \<Longrightarrow> may_bind closure (BinaryExpression l opr r) pending"
| Unary:
    "free_variables (UnaryExpression opr e) = Inr fv \<Longrightarrow> fv \<subseteq> dom closure \<Longrightarrow>
     may_bind closure e False \<Longrightarrow> may_bind closure (UnaryExpression opr e) pending"
| Atom:
    "closure raw = Some e \<Longrightarrow> ty \<notin> {INTEGER, REAL, COMPLEX, STRING, BOOLEAN} \<Longrightarrow>
     may_bind closure e pending \<Longrightarrow> may_bind closure (AtomExpression raw ty) pending"

code_pred may_bind .

inductive_cases may_bind_LambdaE: "may_bind closure (LambdaExpression name body) pending"
inductive_cases may_bind_ApplicationE: "may_bind closure (ApplicationExpression f a) pending"


text \<open>
  The nodes that the examples of the specification use: the literal \<open>1\<close>, and \<open>x + 1\<close>
  with any lexeme and position of its \<open>PLUS\<close> token.
\<close>

definition literal_1 :: expr where
  "literal_1 = AtomExpression ''1'' INTEGER"

definition x_plus_1 :: "string \<Rightarrow> nat \<times> nat \<Rightarrow> expr" where
  "x_plus_1 raw pos =
     BinaryExpression (AtomExpression ''x'' ID) (Token PLUS raw pos) literal_1"

section \<open>The scanner\<close>

text \<open>
  The state of a \<open>QuarkScanner\<close>. The attribute \<open>_source_len\<close> is \<open>len(source)\<close>, set
  by the constructor and never written again; the model computes it from the source.
\<close>

record QuarkScanner =
  source :: string
  ignore_skippables :: bool
  source_start :: nat
  source_pos :: nat
  column_pos :: nat
  line_pos :: nat

definition QuarkScanner_init :: "string \<Rightarrow> bool \<Rightarrow> QuarkScanner" where
  "QuarkScanner_init src ignore =
     \<lparr>source = src, ignore_skippables = ignore, source_start = 0, source_pos = 0,
      column_pos = 0, line_pos = 0\<rparr>"

text \<open>
  The tables \<open>single_char_tokens\<close>, \<open>double_char_tokens\<close>, \<open>triple_char_tokens\<close> and
  \<open>keyword_tokens\<close> of \<open>quark.core.token_\<close> are not among the sources: they are a
  parameter of the scanner.
\<close>

record token_tables =
  single_char_tokens :: "string \<rightharpoonup> TokenTypes"
  double_char_tokens :: "string \<rightharpoonup> TokenTypes"
  triple_char_tokens :: "string \<rightharpoonup> TokenTypes"
  keyword_tokens :: "string \<rightharpoonup> TokenTypes"

definition ord :: "char \<Rightarrow> nat" where
  "ord c = of_char c"

definition current_pos :: "QuarkScanner \<Rightarrow> nat \<times> nat" where
  "current_pos s = (column_pos s, line_pos s)"

text \<open>\<open>self._source_pos == self._source_len - off\<close>, on Python's integers.\<close>

definition reached_end_of_source :: "QuarkScanner \<Rightarrow> int \<Rightarrow> bool" where
  "reached_end_of_source s off = (int (source_pos s) = int (length (source s)) - off)"

text \<open>
  \<open>None\<close> at the end of the source. A position beyond the end is an \<open>IndexError\<close> in
  Python; \<open>next_token\<close> below raises it before anything else reads a character, and
  no step moves the position beyond the end, so the last branch is never taken within
  \<open>next_token\<close>.
\<close>

definition current_char :: "QuarkScanner \<Rightarrow> char option" where
  "current_char s =
     (if reached_end_of_source s 0 then None
      else if source_pos s < length (source s) then Some (source s ! source_pos s)
      else None)"

text \<open>The slice \<open>source[pos:pos + n]\<close> is cut at the end of the source.\<close>

definition current_nchars :: "nat \<Rightarrow> QuarkScanner \<Rightarrow> string option" where
  "current_nchars n s =
     (if reached_end_of_source s (int n - 1) then None
      else Some (take n (drop (source_pos s) (source s))))"

definition consumed_chars :: "QuarkScanner \<Rightarrow> string" where
  "consumed_chars s = take (source_pos s - source_start s) (drop (source_start s) (source s))"

definition match :: "QuarkScanner \<Rightarrow> string \<Rightarrow> bool" where
  "match s str =
     (if reached_end_of_source s (int (length str) - 1) then False
      else take (length str) (drop (source_pos s) (source s)) = str)"

definition consume_char :: "QuarkScanner \<Rightarrow> QuarkScanner" where
  "consume_char s =
     (if reached_end_of_source s 0 then s
      else
        (let s1 = (if current_char s = Some (CHR 0x0A)
                   then s\<lparr>column_pos := 0, line_pos := line_pos s + 1\<rparr> else s)
         in s1\<lparr>column_pos := column_pos s1 + 1, source_pos := source_pos s1 + 1\<rparr>))"

primrec consume_nchars :: "nat \<Rightarrow> QuarkScanner \<Rightarrow> QuarkScanner" where
  "consume_nchars 0 s = s"
| "consume_nchars (Suc n) s = consume_nchars n (consume_char s)"

definition discard_consumed_chars :: "QuarkScanner \<Rightarrow> QuarkScanner" where
  "discard_consumed_chars s = s\<lparr>source_start := source_pos s\<rparr>"

text \<open>
  The character tests; each is false at the end of the source, where \<open>current_char\<close> is
  \<open>None\<close>.
\<close>

definition is_id_start :: "QuarkScanner \<Rightarrow> bool" where
  "is_id_start s =
     (case current_char s of
        None \<Rightarrow> False
      | Some c \<Rightarrow>
          (ord (CHR ''A'') \<le> ord c \<and> ord c \<le> ord (CHR ''Z'')) \<or>
          (ord (CHR ''a'') \<le> ord c \<and> ord c \<le> ord (CHR ''z'')) \<or>
          c = CHR ''_'' \<or> 128 \<le> ord c)"

definition is_id_char :: "QuarkScanner \<Rightarrow> bool" where
  "is_id_char s =
     (case current_char s of
        None \<Rightarrow> False
      | Some c \<Rightarrow>
          (ord (CHR ''A'') \<le> ord c \<and> ord c \<le> ord (CHR ''Z'')) \<or>
          (ord (CHR ''a'') \<le> ord c \<and> ord c \<le> ord (CHR ''z'')) \<or>
          (ord (CHR ''0'') \<le> ord c \<and> ord c \<le> ord (CHR ''9'')) \<or>
          c = CHR ''_'' \<or> 128 \<le> ord c)"

definition is_num_char :: "QuarkScanner \<Rightarrow> bool" where
  "is_num_char s =
     (case current_char s of
        None \<Rightarrow> False
      | Some c \<Rightarrow> ord (CHR ''0'') \<le> ord c \<and> ord c \<le> ord (CHR ''9''))"

definition is_str_start :: "QuarkScanner \<Rightarrow> bool" where
  "is_str_start s =
     (case current_char s of None \<Rightarrow> False | Some c \<Rightarrow> c = CHR 0x22)"

definition is_str_char :: "QuarkScanner \<Rightarrow> bool" where
  "is_str_char s =
     (case current_char s of None \<Rightarrow> False | Some c \<Rightarrow> c \<noteq> CHR 0x22 \<and> ord c < 128)"

definition is_skippable :: "QuarkScanner \<Rightarrow> bool" where
  "is_skippable s =
     (case current_char s of
        None \<Rightarrow> False
      | Some c \<Rightarrow> c = CHR '' '' \<or> c = CHR 0x09)"

text \<open>The loops \<open>while self._is_...(): self._consume_char()\<close>.\<close>

function while_is_skippable :: "QuarkScanner \<Rightarrow> QuarkScanner" where
  "while_is_skippable s = (if is_skippable s then while_is_skippable (consume_char s) else s)"
  by pat_completeness auto
termination
  by (relation "measure (\<lambda>s. length (source s) - source_pos s)")
    (auto simp: is_skippable_def current_char_def consume_char_def reached_end_of_source_def
      Let_def split: if_splits)

function while_is_num_char :: "QuarkScanner \<Rightarrow> QuarkScanner" where
  "while_is_num_char s = (if is_num_char s then while_is_num_char (consume_char s) else s)"
  by pat_completeness auto
termination
  by (relation "measure (\<lambda>s. length (source s) - source_pos s)")
    (auto simp: is_num_char_def current_char_def consume_char_def reached_end_of_source_def
      Let_def split: if_splits)

function while_is_id_char :: "QuarkScanner \<Rightarrow> QuarkScanner" where
  "while_is_id_char s = (if is_id_char s then while_is_id_char (consume_char s) else s)"
  by pat_completeness auto
termination
  by (relation "measure (\<lambda>s. length (source s) - source_pos s)")
    (auto simp: is_id_char_def current_char_def consume_char_def reached_end_of_source_def
      Let_def split: if_splits)

text \<open>
  The loop over the digits that follow the first one: when the literal began with
  \<open>0\<close>, a digit other than \<open>0\<close> raises the error.
\<close>

function while_is_num_char_checked :: "bool \<Rightarrow> QuarkScanner \<Rightarrow> error option \<times> QuarkScanner" where
  "while_is_num_char_checked must_be_real_or_zero s =
     (if is_num_char s then
        (if must_be_real_or_zero \<and> \<not> match s ''0''
         then (Some (QuarkScannerError LeadingZeros), s)
         else while_is_num_char_checked must_be_real_or_zero (consume_char s))
      else (None, s))"
  by pat_completeness auto
termination
  by (relation "measure (\<lambda>(m, s). length (source s) - source_pos s)")
    (auto simp: is_num_char_def current_char_def consume_char_def reached_end_of_source_def
      Let_def split: if_splits)

declare while_is_skippable.simps [simp del]
declare while_is_num_char.simps [simp del]
declare while_is_id_char.simps [simp del]
declare while_is_num_char_checked.simps [simp del]

text \<open>
  The end of \<open>next_token\<close>: \<open>ret = Token(ty, self._consumed_chars, pos)\<close>, then the
  consumed characters are discarded.
\<close>

definition emit ::
  "TokenTypes \<Rightarrow> nat \<times> nat \<Rightarrow> QuarkScanner \<Rightarrow> (error + Token option) \<times> QuarkScanner" where
  "emit ty pos s = (Inr (Some (Token ty (consumed_chars s) pos)), discard_consumed_chars s)"

text \<open>\<open>ty = table[self._consumed_chars]\<close>, a \<open>KeyError\<close> when the key is missing.\<close>

definition emit_from_table ::
  "(string \<rightharpoonup> TokenTypes) \<Rightarrow> nat \<times> nat \<Rightarrow> QuarkScanner \<Rightarrow>
     (error + Token option) \<times> QuarkScanner" where
  "emit_from_table table pos s =
     (case table (consumed_chars s) of
        None \<Rightarrow> (Inl KeyError, s)
      | Some ty \<Rightarrow> emit ty pos s)"

text \<open>The branch \<open>if self._is_num_char()\<close>.\<close>

definition scan_number :: "nat \<times> nat \<Rightarrow> QuarkScanner \<Rightarrow> (error + Token option) \<times> QuarkScanner" where
  "scan_number pos s =
     (let must_be_real_or_zero = match s ''0'' in
      case while_is_num_char_checked must_be_real_or_zero (consume_char s) of
        (Some err, s1) \<Rightarrow> (Inl err, s1)
      | (None, s1) \<Rightarrow>
          (let (type1, s2) =
                 (if match s1 ''.'' then (REAL, while_is_num_char (consume_char s1))
                  else (INTEGER, s1))
           in if match s2 ''im'' then emit COMPLEX pos (consume_nchars 2 s2)
              else emit type1 pos s2))"

text \<open>The branch \<open>elif self._match('.')\<close>.\<close>

definition scan_period :: "nat \<times> nat \<Rightarrow> QuarkScanner \<Rightarrow> (error + Token option) \<times> QuarkScanner" where
  "scan_period pos s =
     (let s1 = consume_char s in
      if is_num_char s1 then
        (let s2 = while_is_num_char (consume_char s1) in
         if match s2 ''im'' then emit COMPLEX pos (consume_nchars 2 s2)
         else emit REAL pos s2)
      else emit PERIOD pos s1)"

text \<open>The branch \<open>elif self._is_id_start()\<close>.\<close>

definition scan_identifier ::
  "token_tables \<Rightarrow> nat \<times> nat \<Rightarrow> QuarkScanner \<Rightarrow> (error + Token option) \<times> QuarkScanner" where
  "scan_identifier tabs pos s =
     (let s1 = while_is_id_char (consume_char s) in
      case keyword_tokens tabs (consumed_chars s1) of
        Some ty \<Rightarrow> emit ty pos s1
      | None \<Rightarrow> emit ID pos s1)"

text \<open>\<open>x in table.keys()\<close>, where \<open>x\<close> may be \<open>None\<close>.\<close>

definition in_keys :: "string option \<Rightarrow> (string \<rightharpoonup> TokenTypes) \<Rightarrow> bool" where
  "in_keys x table = (case x of None \<Rightarrow> False | Some k \<Rightarrow> table k \<noteq> None)"

text \<open>The chain of branches of \<open>next_token\<close> after the whitespace.\<close>

definition scan_token ::
  "token_tables \<Rightarrow> nat \<times> nat \<Rightarrow> QuarkScanner \<Rightarrow> (error + Token option) \<times> QuarkScanner" where
  "scan_token tabs pos s =
     (if is_num_char s then scan_number pos s
      else if match s ''.'' then scan_period pos s
      else if in_keys (current_nchars 3 s) (triple_char_tokens tabs)
        then emit_from_table (triple_char_tokens tabs) pos (consume_nchars 3 s)
      else if in_keys (current_nchars 2 s) (double_char_tokens tabs)
        then emit_from_table (double_char_tokens tabs) pos (consume_nchars 2 s)
      else if in_keys (map_option (\<lambda>c. [c]) (current_char s)) (single_char_tokens tabs)
        then emit_from_table (single_char_tokens tabs) pos (consume_char s)
      else if is_id_start s then scan_identifier tabs pos s
      else (Inl (QuarkScannerError (InvalidCharacter (current_char s))), s))"

text \<open>
  \<open>next_token\<close> returns a token, \<open>None\<close> at the end of the input, or the exception, with
  the scanner as the call leaves it. The position \<open>pos\<close> is read before the whitespace
  is skipped. The first test, \<open>_is_skippable\<close>, reads the current character: a position
  beyond the end is an \<open>IndexError\<close> there.
\<close>

definition next_token :: "token_tables \<Rightarrow> QuarkScanner \<Rightarrow> (error + Token option) \<times> QuarkScanner" where
  "next_token tabs s =
     (let pos = current_pos s in
      if length (source s) < source_pos s then (Inl IndexError, s)
      else if is_skippable s then
        (let s1 = while_is_skippable (consume_char s) in
         if ignore_skippables s1 then
           (let s2 = discard_consumed_chars s1 in
            if reached_end_of_source s2 0 then (Inr None, s2)
            else scan_token tabs pos s2)
         else (Inr (Some (Token SKIP (consumed_chars s1) pos)), discard_consumed_chars s1))
      else scan_token tabs pos s)"

subsection \<open>Progress of the scanner\<close>







lemma current_char_Some:
  "current_char s = Some c \<longleftrightarrow> source_pos s < length (source s) \<and> source s ! source_pos s = c"
  by (auto simp: current_char_def reached_end_of_source_def)

lemma current_char_None:
  "source_pos s \<le> length (source s) \<Longrightarrow>
   current_char s = None \<longleftrightarrow> source_pos s = length (source s)"
  by (auto simp: current_char_def reached_end_of_source_def)

lemma consume_char_fields [simp]:
  "source (consume_char s) = source s"
  "ignore_skippables (consume_char s) = ignore_skippables s"
  "source_start (consume_char s) = source_start s"
  by (simp_all add: consume_char_def Let_def)

lemma consume_char_pos:
  "source_pos (consume_char s) =
     (if source_pos s = length (source s) then source_pos s else source_pos s + 1)"
  by (simp add: consume_char_def Let_def reached_end_of_source_def)































text \<open>
  Tables for closed evaluations.

  Modelled from the spec: the tables of \<open>quark.core.token_\<close> are not among the sources.
  These hold the operators that the evaluator's operator table names, under their usual
  spellings, with \<open><=\<close> a two-character operator as the specification says; no
  three-character operator is known.
\<close>

definition sample_tables :: token_tables where
  "sample_tables =
     \<lparr>single_char_tokens = map_of [(''+'', PLUS), (''-'', MINUS), (''*'', STAR), (''/'', SLASH),
         (''%'', PERCENT), (''>'', GREATER), (''<'', LESS)],
      double_char_tokens = map_of [(''//'', DOUBLE_SLASH), (''**'', DOUBLE_STAR), (''/%'', SLASH_PERCENT),
         (''>='', GREATER_EQUAL), (''<='', LESS_EQUAL), (''=='', DOUBLE_EQUAL), (''!='', EXCLAMATION_EQUAL)],
      triple_char_tokens = Map.empty,
      keyword_tokens = map_of [(''and'', AND), (''or'', OR), (''xor'', XOR), (''not'', NOT)]\<rparr>"

text \<open>
  The digits that a text starts with are not followed by a decimal point: a numeric
  literal that goes on with this text does not become a real literal.
\<close>

fun no_decimal_point :: "string \<Rightarrow> bool" where
  "no_decimal_point [] = True"
| "no_decimal_point (c # cs) = (if is_digit c then no_decimal_point cs else c \<noteq> CHR ''.'')"

text \<open>The source text \<open>"abc"\<close>, with its two double quotes.\<close>

definition quoted_abc :: string where
  "quoted_abc = [CHR 0x22, CHR ''a'', CHR ''b'', CHR ''c'', CHR 0x22]"

section \<open>Properties of the scope queries\<close>

lemma int_of_raw_1: "int_of_raw ''1'' = Some 1"
  by (simp add: int_of_raw_def is_digit_def)

lemma free_variables_x_plus_1: "free_variables (x_plus_1 raw pos) = Inr {''x''}"
  by (simp add: x_plus_1_def literal_1_def set_union_def)

text \<open>
  C2. The claim: for every expression node, \<open>variables\<close> is the union of
  \<open>free_variables\<close> and \<open>bound_variables\<close>. On \<open>LambdaExpression("x", x)\<close> the code
  returns \<open>{"x"}\<close> for \<open>variables\<close> and the empty set for the two others:
  \<open>bound_variables\<close> of a lambda intersects the binder with the bound variables of the
  body, where \<open>LetExpression\<close> intersects with the variables of the body.
\<close>

theorem LambdaExpression_variables_not_union:
  "variables (LambdaExpression ''x'' (AtomExpression ''x'' ID)) = Inr {''x''} \<and>
   set_union (free_variables (LambdaExpression ''x'' (AtomExpression ''x'' ID)))
     (bound_variables (LambdaExpression ''x'' (AtomExpression ''x'' ID))) = Inr {}"
  by (simp add: set_union_def set_minus_def set_of_str_def)

text \<open>
  C3. The claim: the binding identifier of a \<open>LambdaExpression\<close>, of any length, is not
  among its free variables. The code subtracts \<open>set(binding_identifier)\<close>, the set of the
  characters of the identifier: the identifier \<open>xy\<close> stays free in
  \<open>LambdaExpression("xy", xy)\<close>.
\<close>

theorem LambdaExpression_free_variables_keeps_long_identifier:
  "free_variables (LambdaExpression ''xy'' (AtomExpression ''xy'' ID)) = Inr {''xy''}"
  by (simp add: set_minus_def set_of_str_def)

section \<open>Properties of the evaluator\<close>


text \<open>
  By induction on the depth, following the calls that share the closure: each of them
  starts from a node that cannot come to a binding either, and returns the closure as
  it found it, so the next call works on the same closure.
\<close>

lemma execute_closure_unchanged:
  assumes "execute n rt e closure callstack = Some (out, closure', callstack')"
    and "\<not> may_bind closure e (callstack \<noteq> [])"
  shows "closure' = closure"
  using assms
proof (induction n arbitrary: e callstack out closure' callstack')
  case 0
  then show ?case by simp
next
  case (Suc n)
  note IH = Suc.IH
  show ?case
  proof (cases e)
    case (LetExpression ids inits body)
    with Suc.prems(2) have "zip ids inits = []" by (auto intro: may_bind.Let)
    with Suc.prems(1) LetExpression show ?thesis
      by (auto split: option.splits)
  next
    case (LambdaExpression name body)
    with Suc.prems(2) have e: "callstack = []" and "\<not> may_bind closure body False"
      using may_bind.Lambda_pending may_bind.Lambda_body by (cases "callstack = []"; auto)+
    with Suc.prems(1) LambdaExpression IH[of body "[]" out closure' callstack'] show ?thesis
      by simp
  next
    case (ConditionalExpression c t alt)
    from Suc.prems(2) ConditionalExpression
    have nc: "\<not> may_bind closure c ([] \<noteq> [])" and nt: "\<not> may_bind closure t ([] \<noteq> [])"
      and na: "\<And>a. alt = Some a \<Longrightarrow> \<not> may_bind closure a ([] \<noteq> [])"
      by (auto intro: may_bind.intros)
    from Suc.prems(1) ConditionalExpression show ?thesis
      by (auto split: option.splits sum.splits if_splits bool.splits
          dest!: IH[OF _ nc] IH[OF _ nt] IH[OF _ na])
  next
    case (ApplicationExpression f a)
    with Suc.prems(1) show ?thesis
      by (auto split: option.splits if_splits)
  next
    case (BinaryExpression l opr r)
    from Suc.prems(2) BinaryExpression
    have nl: "\<And>fv. free_variables (BinaryExpression l opr r) = Inr fv \<Longrightarrow> fv \<subseteq> dom closure
        \<Longrightarrow> \<not> may_bind closure l ([] \<noteq> [])"
      and nr: "\<And>fv. free_variables (BinaryExpression l opr r) = Inr fv \<Longrightarrow> fv \<subseteq> dom closure
        \<Longrightarrow> \<not> may_bind closure r ([] \<noteq> [])"
      by (auto intro: may_bind.intros)
    show ?thesis
    proof (cases "free_variables (BinaryExpression l opr r)")
      case (Inl err)
      with Suc.prems(1) BinaryExpression show ?thesis by simp
    next
      case (Inr fv)
      show ?thesis
      proof (cases "fv \<subseteq> dom closure")
        case False
        with Suc.prems(1) BinaryExpression Inr show ?thesis by simp
      next
        case True
        note l = nl[OF Inr True] and r = nr[OF Inr True]
        from Suc.prems(1) BinaryExpression Inr True show ?thesis
          by (auto split: option.splits sum.splits dest!: IH[OF _ l] IH[OF _ r])
      qed
    qed
  next
    case (UnaryExpression opr e')
    from Suc.prems(2) UnaryExpression
    have ne: "\<And>fv. free_variables (UnaryExpression opr e') = Inr fv \<Longrightarrow> fv \<subseteq> dom closure
        \<Longrightarrow> \<not> may_bind closure e' ([] \<noteq> [])"
      by (auto intro: may_bind.intros)
    show ?thesis
    proof (cases "free_variables (UnaryExpression opr e')")
      case (Inl err)
      with Suc.prems(1) UnaryExpression show ?thesis by simp
    next
      case (Inr fv)
      show ?thesis
      proof (cases "fv \<subseteq> dom closure")
        case False
        with Suc.prems(1) UnaryExpression Inr show ?thesis by simp
      next
        case True
        note u = ne[OF Inr True]
        from Suc.prems(1) UnaryExpression Inr True show ?thesis
          by (auto split: option.splits sum.splits dest!: IH[OF _ u])
      qed
    qed
  next
    case (AtomExpression raw ty)
    from Suc.prems(2) AtomExpression
    have na: "\<And>e'. closure raw = Some e' \<Longrightarrow> ty \<notin> {INTEGER, REAL, COMPLEX, STRING, BOOLEAN}
        \<Longrightarrow> \<not> may_bind closure e' (callstack \<noteq> [])"
      by (auto intro: may_bind.Atom)
    from Suc.prems(1) AtomExpression show ?thesis
      by (auto split: option.splits if_splits dest: IH[OF _ na])
  qed (use Suc.prems in auto)
qed



text \<open>
  Two kinds of node never come to a binding in the closure of the caller: an
  \<open>ApplicationExpression\<close>, and a \<open>LetExpression\<close> without bindings.
\<close>

lemma not_may_bind_ApplicationExpression:
  "\<not> may_bind closure (ApplicationExpression f a) pending"
  by (auto elim: may_bind_ApplicationE)

lemma execute_ApplicationExpression_closure:
  "execute n rt (ApplicationExpression f a) closure callstack = Some (out, closure', callstack')
   \<Longrightarrow> closure' = closure"
  by (erule execute_closure_unchanged) (rule not_may_bind_ApplicationExpression)




text \<open>
  The slip in \<open>LetExpression.execute\<close>: it sets \<open>closure_copy = closure.copy()\<close>, then
  writes every binding to \<open>closure\<close>, the closure of the caller, and runs the body in the
  copy, which has none of them. A \<open>let\<close> that binds a new name leaves that name bound in
  the closure of the caller, whenever it returns; \<open>let x = 1 in x\<close> on the empty closure
  comes back stuck; and \<open>let x = 2 in x\<close> on a closure that binds \<open>x\<close> to 1 answers 1 and
  leaves \<open>x\<close> bound to 2.
\<close>

lemma LetExpression_execute_binds_in_caller_closure:
  assumes "closure name = None"
    and "execute (Suc n) rt (LetExpression [name] [e] (Some body)) closure callstack =
      Some (out, closure', callstack')"
  shows "closure' = closure(name \<mapsto> e)"
  using assms by (auto simp: bind_name_def split: option.splits)

lemma LetExpression_execute_stuck_on_own_binding:
  "execute (Suc (Suc n)) rt (LetExpression [''x''] [literal_1] (Some (AtomExpression ''x'' ID)))
     Map.empty [] =
   Some (Inr (Class_LetExpression,
            Node (LetExpression [''x''] [literal_1] (Some (AtomExpression ''x'' ID)))),
     [''x'' \<mapsto> literal_1], [])"
  by (simp add: bind_name_def let_result_def)

lemma LetExpression_execute_overwrites_caller_binding:
  "execute (Suc (Suc (Suc n))) rt
     (LetExpression [''x''] [AtomExpression ''2'' INTEGER] (Some (AtomExpression ''x'' ID)))
     [''x'' \<mapsto> literal_1] [] =
   Some (Inr (LiteralType, IntegerObject 1), [''x'' \<mapsto> AtomExpression ''2'' INTEGER], [])"
  by (simp add: bind_name_def let_result_def literal_1_def int_of_raw_1)

text \<open>
  C4. The claim: a closed \<open>UnaryExpression\<close> applies the operator to the reduced value
  of its operand and returns a literal result, and one that is not closed returns a
  stuck result tagged \<open>UnaryExpression\<close>. The code applies the operator to the
  \<open>ExecutionResult\<close> itself, where \<open>BinaryExpression\<close> takes \<open>.val\<close>: \<open>-1\<close> raises
  \<open>TypeError\<close>. And it tags the stuck result with the abstract class \<open>Expression\<close>.
\<close>

theorem UnaryExpression_execute_minus:
  "execute (Suc (Suc n)) rt (UnaryExpression (Token MINUS ''-'' p) literal_1)
     Map.empty callstack =
     Some (Inl TypeError, Map.empty, callstack) \<and>
   execute (Suc n) rt (UnaryExpression (Token MINUS ''-'' p) (AtomExpression ''x'' ID))
     Map.empty callstack =
     Some (Inr (Class_Expression,
              Node (UnaryExpression (Token MINUS ''-'' p) (AtomExpression ''x'' ID))),
       Map.empty, callstack)"
  by (simp add: token_unary_operation_mapping_def literal_1_def int_of_raw_1)

text \<open>
  C7. Executing \<open>AssignmentStatement(["x"], [x + 1])\<close> on any closure that binds \<open>x\<close> to
  the literal 1 stores \<open>ApplicationExpression(LambdaExpression("x", x + 1), 1)\<close> under
  \<open>x\<close>, leaves the other entries alone and returns \<open>ExecutionResult(NoneType, None)\<close>;
  the statement evaluates nothing, so it returns at every depth.
\<close>

theorem AssignmentStatement_execute_self_reference:
  assumes "closure ''x'' = Some literal_1"
  shows "execute_statement n rt (AssignmentStatement [''x''] [x_plus_1 raw pos])
           closure callstack =
         Some (Inr (NoneType, PyNone),
           closure(''x'' \<mapsto>
             ApplicationExpression (LambdaExpression ''x'' (x_plus_1 raw pos)) literal_1),
           callstack)"
  using assms by (simp add: bind_name_def free_variables_x_plus_1)

text \<open>C7, a witness: the closure that binds \<open>x\<close> to the literal 1 and \<open>y\<close> to \<open>x\<close>.\<close>

theorem AssignmentStatement_execute_self_reference_witness:
  "[''x'' \<mapsto> literal_1, ''y'' \<mapsto> AtomExpression ''x'' ID] ''x'' = Some literal_1 \<and>
   execute_statement 0 integer_runtime (AssignmentStatement [''x''] [x_plus_1 ''+'' (0, 0)])
     [''x'' \<mapsto> literal_1, ''y'' \<mapsto> AtomExpression ''x'' ID] [] =
   Some (Inr (NoneType, PyNone),
     [''x'' \<mapsto> literal_1, ''y'' \<mapsto> AtomExpression ''x'' ID](''x'' \<mapsto>
        ApplicationExpression (LambdaExpression ''x'' (x_plus_1 ''+'' (0, 0))) literal_1),
     [])"
proof -
  have h: "[''x'' \<mapsto> literal_1, ''y'' \<mapsto> AtomExpression ''x'' ID] ''x'' = Some literal_1"
    by simp
  from AssignmentStatement_execute_self_reference[
      where closure = "[''x'' \<mapsto> literal_1, ''y'' \<mapsto> AtomExpression ''x'' ID]"
        and n = 0 and rt = integer_runtime and raw = "''+''" and pos = "(0, 0)"
        and callstack = "[]", OF h]
    h show ?thesis by blast
qed

text \<open>
  C8. \<open>x + 1\<close> on any closure without \<open>x\<close> returns the node itself, tagged
  \<open>BinaryExpression\<close>; on any closure that binds \<open>x\<close> to the literal 1 it returns the
  literal integer 2, for every runtime in which \<open>1 + 1\<close> is \<open>2\<close>. Either way the closure
  and the callstack stay as they were.
\<close>

theorem BinaryExpression_execute_x_plus_1:
  "(closure ''x'' = None \<longrightarrow>
      execute (Suc n) rt (x_plus_1 raw pos) closure callstack =
        Some (Inr (Class_BinaryExpression, Node (x_plus_1 raw pos)), closure, callstack)) \<and>
   (closure ''x'' = Some literal_1 \<and>
    binary_operator rt Add (IntegerObject 1) (IntegerObject 1) = Inr (IntegerObject 2) \<longrightarrow>
      execute (Suc (Suc (Suc n))) rt (x_plus_1 raw pos) closure callstack =
        Some (Inr (LiteralType, IntegerObject 2), closure, callstack))"
proof (intro conjI impI)
  assume "closure ''x'' = None"
  then have "\<not> {''x''} \<subseteq> dom closure" by auto
  then show "execute (Suc n) rt (x_plus_1 raw pos) closure callstack =
      Some (Inr (Class_BinaryExpression, Node (x_plus_1 raw pos)), closure, callstack)"
    using free_variables_x_plus_1[of raw pos] by (simp add: x_plus_1_def)
next
  assume a: "closure ''x'' = Some literal_1 \<and>
    binary_operator rt Add (IntegerObject 1) (IntegerObject 1) = Inr (IntegerObject 2)"
  then have "{''x''} \<subseteq> dom closure" by auto
  with a show "execute (Suc (Suc (Suc n))) rt (x_plus_1 raw pos) closure callstack =
      Some (Inr (LiteralType, IntegerObject 2), closure, callstack)"
    using free_variables_x_plus_1[of raw pos]
    by (simp add: x_plus_1_def literal_1_def token_binary_operation_mapping_def int_of_raw_1)
qed

text \<open>
  C8, a witness: the runtime of the integers, on the empty closure and on a closure
  that binds \<open>x\<close> to the literal 1 and \<open>y\<close> to \<open>x\<close>.
\<close>

theorem BinaryExpression_execute_x_plus_1_witness:
  "binary_operator integer_runtime Add (IntegerObject 1) (IntegerObject 1) =
     Inr (IntegerObject 2) \<and>
   execute (Suc 0) integer_runtime (x_plus_1 ''+'' (0, 0)) Map.empty [] =
     Some (Inr (Class_BinaryExpression, Node (x_plus_1 ''+'' (0, 0))), Map.empty, []) \<and>
   execute (Suc (Suc (Suc 0))) integer_runtime (x_plus_1 ''+'' (0, 0))
     [''x'' \<mapsto> literal_1, ''y'' \<mapsto> AtomExpression ''x'' ID] [] =
     Some (Inr (LiteralType, IntegerObject 2),
       [''x'' \<mapsto> literal_1, ''y'' \<mapsto> AtomExpression ''x'' ID], [])"
proof -
  have h: "binary_operator integer_runtime Add (IntegerObject 1) (IntegerObject 1) =
      Inr (IntegerObject 2)"
    by (simp add: integer_runtime_def integer_operator_def)
  have e: "(Map.empty :: closure) ''x'' = None" by simp
  have b: "[''x'' \<mapsto> literal_1, ''y'' \<mapsto> AtomExpression ''x'' ID] ''x'' = Some literal_1"
    by simp
  from BinaryExpression_execute_x_plus_1[where closure = Map.empty and n = 0
      and rt = integer_runtime and raw = "''+''" and pos = "(0, 0)" and callstack = "[]"] e
  have 1: "execute (Suc 0) integer_runtime (x_plus_1 ''+'' (0, 0)) Map.empty [] =
      Some (Inr (Class_BinaryExpression, Node (x_plus_1 ''+'' (0, 0))), Map.empty, [])"
    by blast
  from BinaryExpression_execute_x_plus_1[
      where closure = "[''x'' \<mapsto> literal_1, ''y'' \<mapsto> AtomExpression ''x'' ID]"
        and n = 0 and rt = integer_runtime and raw = "''+''" and pos = "(0, 0)"
        and callstack = "[]"] b h
  have 2: "execute (Suc (Suc (Suc 0))) integer_runtime (x_plus_1 ''+'' (0, 0))
      [''x'' \<mapsto> literal_1, ''y'' \<mapsto> AtomExpression ''x'' ID] [] =
      Some (Inr (LiteralType, IntegerObject 2),
        [''x'' \<mapsto> literal_1, ''y'' \<mapsto> AtomExpression ''x'' ID], [])"
    by blast
  from h 1 2 show ?thesis by blast
qed

lemma int_of_raw_7: "int_of_raw ''7'' = Some 7"
  by (simp add: int_of_raw_def is_digit_def)

lemma int_of_raw_2: "int_of_raw ''2'' = Some 2"
  by (simp add: int_of_raw_def is_digit_def)

text \<open>
  Executing an \<open>ImportStatement\<close>, an \<open>ExportStatement\<close>, a \<open>ListExpression\<close>, an
  \<open>ExpressionList\<close> or a fresh name raises \<open>NotImplementedError\<close> for every closure and
  callstack, which it leaves as they were.
\<close>

lemma execute_unsupported_nodes:
  "execute_statement n rt (ImportStatement package_names alias_names) closure callstack =
     Some (Inl NotImplementedError, closure, callstack) \<and>
   execute_statement n rt (ExportStatement package_names alias_names) closure callstack =
     Some (Inl NotImplementedError, closure, callstack) \<and>
   execute (Suc n) rt (ListExpression items) closure callstack =
     Some (Inl NotImplementedError, closure, callstack) \<and>
   execute (Suc n) rt (ExpressionList items) closure callstack =
     Some (Inl NotImplementedError, closure, callstack) \<and>
   execute (Suc n) rt (InternalName ident) closure callstack =
     Some (Inl NotImplementedError, closure, callstack)"
  by simp

text \<open>
  C9. The claim: the five unsupported nodes raise an unsupported-operation error, and
  so does a closed \<open>BinaryExpression\<close> whose operator is \<open>SLASH_PERCENT\<close>. The nodes do
  (\<open>execute_unsupported_nodes\<close>). The entry of \<open>SLASH_PERCENT\<close> in the operator table is
  \<open>lambda x, y: None  # todo\<close>, which raises nothing: \<open>7 /% 2\<close> returns a literal
  result whose value is \<open>None\<close>, on every closure, with every runtime and at every depth
  from 2.
\<close>

theorem execute_SLASH_PERCENT_returns_None:
  "execute (Suc (Suc n)) rt
     (BinaryExpression (AtomExpression ''7'' INTEGER) (Token SLASH_PERCENT raw pos)
        (AtomExpression ''2'' INTEGER))
     closure callstack =
   Some (Inr (LiteralType, PyNone), closure, callstack)"
  by (simp add: set_union_def int_of_raw_7 int_of_raw_2 token_binary_operation_mapping_def)

section \<open>Properties of the scanner\<close>












lemmas scanner_eval =
  next_token_def scan_token_def scan_number_def scan_period_def scan_identifier_def
  emit_def emit_from_table_def in_keys_def is_skippable_def is_num_char_def is_id_start_def
  is_id_char_def current_char_def current_nchars_def current_pos_def consumed_chars_def
  match_def consume_char_def discard_consumed_chars_def reached_end_of_source_def ord_def
  QuarkScanner_init_def Let_def eval_nat_numeral
  while_is_skippable.simps while_is_num_char.simps while_is_id_char.simps
  while_is_num_char_checked.simps



lemma sample_tables_quote:
  "triple_char_tokens sample_tables [CHR 0x22, CHR ''a'', CHR ''b''] = None"
  "double_char_tokens sample_tables [CHR 0x22, CHR ''a''] = None"
  "single_char_tokens sample_tables [CHR 0x22] = None"
  by (simp_all add: sample_tables_def)





lemma emit_from_table_raw:
  "emit_from_table table p s = (Inr (Some t), s') \<Longrightarrow> tok_raw t = consumed_chars s"
  by (auto simp: emit_from_table_def emit_def split: option.splits)

lemma scan_token_quoted_abc:
  "scan_token tabs p (QuarkScanner_init quoted_abc ign) =
     (if in_keys (Some [CHR 0x22, CHR ''a'', CHR ''b'']) (triple_char_tokens tabs)
        then emit_from_table (triple_char_tokens tabs) p
               (consume_nchars 3 (QuarkScanner_init quoted_abc ign))
      else if in_keys (Some [CHR 0x22, CHR ''a'']) (double_char_tokens tabs)
        then emit_from_table (double_char_tokens tabs) p
               (consume_nchars 2 (QuarkScanner_init quoted_abc ign))
      else if in_keys (Some [CHR 0x22]) (single_char_tokens tabs)
        then emit_from_table (single_char_tokens tabs) p
               (consume_char (QuarkScanner_init quoted_abc ign))
      else (Inl (QuarkScannerError (InvalidCharacter (Some (CHR 0x22)))),
            QuarkScanner_init quoted_abc ign))"
  by (simp add: scan_token_def quoted_abc_def QuarkScanner_init_def is_num_char_def
      is_id_start_def match_def current_char_def current_nchars_def reached_end_of_source_def
      ord_def)

lemma consumed_chars_quoted_abc:
  "consumed_chars (consume_nchars 3 (QuarkScanner_init quoted_abc ign)) = [CHR 0x22, CHR ''a'', CHR ''b'']"
  "consumed_chars (consume_nchars 2 (QuarkScanner_init quoted_abc ign)) = [CHR 0x22, CHR ''a'']"
  "consumed_chars (consume_char (QuarkScanner_init quoted_abc ign)) = [CHR 0x22]"
  by (simp_all add: consumed_chars_def consume_char_def quoted_abc_def QuarkScanner_init_def
      current_char_def reached_end_of_source_def Let_def eval_nat_numeral)

text \<open>
  C5. The claim: \<open>next_token\<close> scans a string literal, from its opening double quote to
  the closing one, as one string token. \<open>next_token\<close> has no branch for a double quote
  (\<open>_is_str_start\<close> and \<open>_is_str_char\<close> are never called): on \<open>"abc"\<close> no table makes it
  return a token for the whole literal, and with the sample tables it raises the error
  for an invalid character.
\<close>

theorem next_token_string_literal:
  "fst (next_token tabs (QuarkScanner_init quoted_abc ign)) \<noteq>
     Inr (Some (Token ty quoted_abc p)) \<and>
   next_token sample_tables (QuarkScanner_init quoted_abc True) =
     (Inl (QuarkScannerError (InvalidCharacter (Some (CHR 0x22)))),
      QuarkScanner_init quoted_abc True)"
proof
  let ?s = "QuarkScanner_init quoted_abc ign"
  have nt: "next_token tabs ?s = scan_token tabs (0, 0) ?s"
    by (simp add: next_token_def Let_def is_skippable_def current_char_def current_pos_def
        reached_end_of_source_def quoted_abc_def QuarkScanner_init_def)
  show "fst (next_token tabs ?s) \<noteq> Inr (Some (Token ty quoted_abc p))"
  proof
    assume a: "fst (next_token tabs ?s) = Inr (Some (Token ty quoted_abc p))"
    then obtain s' where "scan_token tabs (0, 0) ?s = (Inr (Some (Token ty quoted_abc p)), s')"
      by (cases "scan_token tabs (0, 0) ?s") (simp add: nt)
    then have "quoted_abc \<in> {[CHR 0x22, CHR ''a'', CHR ''b''], [CHR 0x22, CHR ''a''], [CHR 0x22]}"
      by (auto simp: scan_token_quoted_abc consumed_chars_quoted_abc split: if_splits
          dest!: emit_from_table_raw)
    then show False by (simp add: quoted_abc_def)
  qed
next
  have "\<not> in_keys (Some [CHR 0x22, CHR ''a'', CHR ''b'']) (triple_char_tokens sample_tables)"
    and "\<not> in_keys (Some [CHR 0x22, CHR ''a'']) (double_char_tokens sample_tables)"
    and "\<not> in_keys (Some [CHR 0x22]) (single_char_tokens sample_tables)"
    by (simp_all add: in_keys_def sample_tables_quote)
  then have "scan_token sample_tables (0, 0) (QuarkScanner_init quoted_abc True) =
      (Inl (QuarkScannerError (InvalidCharacter (Some (CHR 0x22)))),
       QuarkScanner_init quoted_abc True)"
    by (simp add: scan_token_quoted_abc)
  then show "next_token sample_tables (QuarkScanner_init quoted_abc True) =
     (Inl (QuarkScannerError (InvalidCharacter (Some (CHR 0x22)))),
      QuarkScanner_init quoted_abc True)"
    by (simp add: next_token_def Let_def is_skippable_def current_char_def current_pos_def
        reached_end_of_source_def quoted_abc_def QuarkScanner_init_def)
qed

lemma while_is_num_char_checked_zeros:
  assumes "ord (CHR ''1'') \<le> ord d" and "ord d \<le> ord (CHR ''9'')"
  shows "source s = pre @ replicate k (CHR ''0'') @ d # rest \<Longrightarrow> source_pos s = length pre \<Longrightarrow>
    fst (while_is_num_char_checked True s) = Some (QuarkScannerError LeadingZeros)"
proof (induction k arbitrary: pre s)
  case 0
  then have c: "current_char s = Some d" by (simp add: current_char_Some)
  with assms have n: "is_num_char s" by (simp add: is_num_char_def ord_def)
  from assms have "d \<noteq> CHR ''0''" by (auto simp: ord_def)
  with 0 have "\<not> match s ''0''" by (simp add: match_def)
  with n show ?case by (subst while_is_num_char_checked.simps) simp
next
  case (Suc k)
  then have c: "current_char s = Some (CHR ''0'')" by (simp add: current_char_Some)
  then have n: "is_num_char s" by (simp add: is_num_char_def ord_def)
  from Suc.prems have m: "match s ''0''" by (simp add: match_def reached_end_of_source_def)
  have "source (consume_char s) = (pre @ ''0'') @ replicate k (CHR ''0'') @ d # rest"
    using Suc.prems by simp
  moreover have "source_pos (consume_char s) = length (pre @ ''0'')"
    using Suc.prems by (simp add: consume_char_pos)
  ultimately have "fst (while_is_num_char_checked True (consume_char s)) =
      Some (QuarkScannerError LeadingZeros)"
    by (rule Suc.IH)
  with n m show ?case by (subst while_is_num_char_checked.simps) simp
qed

lemma while_is_skippable_run:
  assumes "c \<noteq> CHR '' ''" and "c \<noteq> CHR 0x09"
  shows "\<forall>w \<in> set ws. w = CHR '' '' \<or> w = CHR 0x09 \<Longrightarrow>
    source s = pre @ ws @ c # rest \<Longrightarrow> source_pos s = length pre \<Longrightarrow>
    source (while_is_skippable s) = source s \<and>
    source_pos (while_is_skippable s) = length pre + length ws \<and>
    ignore_skippables (while_is_skippable s) = ignore_skippables s"
proof (induction ws arbitrary: pre s)
  case Nil
  then have "current_char s = Some c" by (simp add: current_char_Some)
  with assms have "\<not> is_skippable s" by (simp add: is_skippable_def)
  then have "while_is_skippable s = s" by (subst while_is_skippable.simps) simp
  with Nil show ?case by simp
next
  case (Cons w ws)
  then have "current_char s = Some w" by (simp add: current_char_Some)
  with Cons.prems(1) have sk: "is_skippable s" by (simp add: is_skippable_def)
  have "source (consume_char s) = (pre @ [w]) @ ws @ c # rest"
    using Cons.prems(2) by simp
  moreover have "source_pos (consume_char s) = length (pre @ [w])"
    using Cons.prems(2,3) by (simp add: consume_char_pos)
  moreover have "\<forall>w \<in> set ws. w = CHR '' '' \<or> w = CHR 0x09"
    using Cons.prems(1) by simp
  ultimately have "source (while_is_skippable (consume_char s)) = source (consume_char s) \<and>
    source_pos (while_is_skippable (consume_char s)) = length (pre @ [w]) + length ws \<and>
    ignore_skippables (while_is_skippable (consume_char s)) =
      ignore_skippables (consume_char s)"
    using Cons.IH[of "consume_char s" "pre @ [w]"] by blast
  moreover have "while_is_skippable s = while_is_skippable (consume_char s)"
    using sk by (subst while_is_skippable.simps) simp
  ultimately show ?case by simp
qed

lemma scan_token_leading_zeros:
  assumes "ord (CHR ''1'') \<le> ord d" and "ord d \<le> ord (CHR ''9'')"
    and src: "source s = pre @ CHR ''0'' # replicate k (CHR ''0'') @ d # rest"
    and pos: "source_pos s = length pre"
  shows "fst (scan_token tabs p s) = Inl (QuarkScannerError LeadingZeros)"
proof -
  have c: "current_char s = Some (CHR ''0'')"
    using src pos by (simp add: current_char_Some)
  then have n: "is_num_char s" by (simp add: is_num_char_def ord_def)
  have m: "match s ''0''"
    using src pos by (simp add: match_def reached_end_of_source_def)
  have "source (consume_char s) = (pre @ ''0'') @ replicate k (CHR ''0'') @ d # rest"
    using src by simp
  moreover have "source_pos (consume_char s) = length (pre @ ''0'')"
    using src pos by (simp add: consume_char_pos)
  ultimately have "fst (while_is_num_char_checked True (consume_char s)) =
      Some (QuarkScannerError LeadingZeros)"
    by (rule while_is_num_char_checked_zeros[OF assms(1,2)])
  then obtain s2 where "while_is_num_char_checked True (consume_char s) =
      (Some (QuarkScannerError LeadingZeros), s2)"
    by (cases "while_is_num_char_checked True (consume_char s)") simp
  then have "fst (scan_number p s) = Inl (QuarkScannerError LeadingZeros)"
    using m by (simp add: scan_number_def)
  with n show ?thesis by (simp add: scan_token_def)
qed

text \<open>
  C6, as amended. Whenever the next token of the source is a numeric literal that
  starts with \<open>0\<close>, goes on with any number of further \<open>0\<close>s and then with a digit from
  \<open>1\<close> to \<open>9\<close>, and does not become a real literal through a decimal point,
  \<open>next_token\<close> raises the scanner error for the leading zeros. The literal is the next
  token at the current position, or after a run of spaces and tabs that the scanner
  ignores.
\<close>

theorem next_token_leading_zeros:
  assumes src: "source s = pre @ ws @ CHR ''0'' # replicate k (CHR ''0'') @ d # rest"
    and pos: "source_pos s = length pre"
    and ws: "\<forall>w \<in> set ws. w = CHR '' '' \<or> w = CHR 0x09"
    and ign: "ws = [] \<or> ignore_skippables s"
    and d: "ord (CHR ''1'') \<le> ord d" "ord d \<le> ord (CHR ''9'')"
    and tail: "no_decimal_point rest"
  shows "fst (next_token tabs s) = Inl (QuarkScannerError LeadingZeros)"
proof -
  have le: "\<not> length (source s) < source_pos s" using src pos by simp
  show ?thesis
  proof (cases ws)
    case Nil
    with src pos have "current_char s = Some (CHR ''0'')" by (simp add: current_char_Some)
    then have "\<not> is_skippable s" by (simp add: is_skippable_def)
    moreover have "source s = pre @ CHR ''0'' # replicate k (CHR ''0'') @ d # rest"
      using src Nil by simp
    with d have "fst (scan_token tabs (current_pos s) s) = Inl (QuarkScannerError LeadingZeros)"
      using pos by (rule scan_token_leading_zeros)
    ultimately show ?thesis using le by (simp add: next_token_def Let_def)
  next
    case (Cons w ws')
    let ?s1 = "while_is_skippable (consume_char s)"
    let ?s2 = "discard_consumed_chars ?s1"
    from Cons src pos have "current_char s = Some w" by (simp add: current_char_Some)
    with Cons ws have sk: "is_skippable s" by (simp add: is_skippable_def)
    from Cons ign have i: "ignore_skippables s" by simp
    have f1: "\<forall>w \<in> set ws'. w = CHR '' '' \<or> w = CHR 0x09" using ws Cons by simp
    have f2: "source (consume_char s) =
        (pre @ [w]) @ ws' @ CHR ''0'' # replicate k (CHR ''0'') @ d # rest"
      using src Cons by simp
    have f3: "source_pos (consume_char s) = length (pre @ [w])"
      using src pos Cons by (simp add: consume_char_pos)
    have z: "CHR ''0'' \<noteq> CHR '' ''" "CHR ''0'' \<noteq> CHR 0x09" by simp_all
    have r: "source ?s1 = source (consume_char s) \<and>
      source_pos ?s1 = length (pre @ [w]) + length ws' \<and>
      ignore_skippables ?s1 = ignore_skippables (consume_char s)"
      using z f1 f2 f3 by (rule while_is_skippable_run)
    then have s2: "source ?s2 = (pre @ ws) @ CHR ''0'' # replicate k (CHR ''0'') @ d # rest"
      and p2: "source_pos ?s2 = length (pre @ ws)" and i1: "ignore_skippables ?s1"
      using src Cons i by (simp_all add: discard_consumed_chars_def)
    then have ne: "\<not> reached_end_of_source ?s2 0"
      by (simp add: reached_end_of_source_def)
    have "fst (scan_token tabs (current_pos s) ?s2) = Inl (QuarkScannerError LeadingZeros)"
      using d s2 p2 by (rule scan_token_leading_zeros)
    with sk i1 ne le show ?thesis by (simp add: next_token_def Let_def)
  qed
qed

text \<open>
  C6, a witness: the source \<open>007\<close> after a space, which the scanner ignores.
\<close>

theorem next_token_leading_zeros_witness:
  "ord (CHR ''1'') \<le> ord (CHR ''7'') \<and> ord (CHR ''7'') \<le> ord (CHR ''9'') \<and>
   no_decimal_point '''' \<and>
   fst (next_token sample_tables (QuarkScanner_init '' 007'' True)) =
     Inl (QuarkScannerError LeadingZeros)"
  using next_token_leading_zeros[where s = "QuarkScanner_init '' 007'' True" and pre = "[]"
      and ws = "'' ''" and k = "Suc 0" and d = "CHR ''7''" and rest = "[]"
      and tabs = sample_tables]
  by (simp add: ord_def QuarkScanner_init_def)

lemma next_token_00:
  "next_token tabs (QuarkScanner_init ''00'' ign) =
     (Inr (Some (Token INTEGER ''00'' (0, 0))),
      \<lparr>source = ''00'', ignore_skippables = ign, source_start = 2, source_pos = 2,
       column_pos = 2, line_pos = 0\<rparr>)"
  by (simp add: scanner_eval)

text \<open>
  C6, the claim as stated fails: in \<open>00\<close> the digit \<open>0\<close> is followed by another digit, and
  \<open>next_token\<close> returns the integer token \<open>00\<close>.
\<close>

theorem next_token_accepts_zeros:
  "fst (next_token sample_tables (QuarkScanner_init ''00'' True)) =
     Inr (Some (Token INTEGER ''00'' (0, 0)))"
  by (simp add: next_token_00)

end
